theory Spec2Isabelle
  imports Main "HOL-Library.Sublist" "HOL-Library.Char_ord" "HOL-Library.List_Lexorder"
begin

section \<open>GCP log entry formatter (gcplogtarget/formatter.go)\<close>

text \<open>
  The function \<open>parseGCPLogsEntry\<close> turns the bytes of one GCP log entry into a Loki
  entry: a label set, a timestamp and a line. Go strings and byte slices are byte
  sequences, modelled as \<open>string\<close> (a list of 8-bit characters). Go maps are modelled
  as association lists with distinct keys; a \<open>range\<close> loop visits the pairs in the
  order of the list, so a statement for every list covers every iteration order.
\<close>

subsection \<open>Data\<close>

text \<open>\<open>labels.Label\<close> and \<open>labels.Labels\<close> of Prometheus: a slice of name/value pairs.\<close>

datatype Label = Label (Name: string) (Value: string)

type_synonym Labels = "Label list"

text \<open>\<open>model.LabelSet\<close>: a Go map from label names to label values.\<close>

type_synonym LabelSet = "string \<rightharpoonup> string"

text \<open>
  \<open>time.Time\<close> as an instant: seconds and nanoseconds elapsed since
  January 1, year 1, 00:00:00 UTC. The zero time is the instant with both parts zero.
\<close>

datatype Time = Time (sec: int) (nsec: nat)

definition IsZero :: "Time \<Rightarrow> bool" where
  "IsZero t \<longleftrightarrow> sec t = 0 \<and> nsec t = 0"

text \<open>
  The struct \<open>GCPLogEntry\<close>. The nested struct \<open>Resource\<close> is flattened into the fields
  \<open>Resource_Type\<close> and \<open>Resource_Labels\<close>.
\<close>

record GCPLogEntry =
  LogName :: string
  Resource_Type :: string
  Resource_Labels :: "(string \<times> string) list"
  Timestamp :: string
  ReceiveTimestamp :: string
  Severity :: string
  Labels :: "(string \<times> string) list"
  TextPayload :: string

text \<open>\<open>loki.Entry\<close>: the label set with the embedded \<open>logproto.Entry\<close>.\<close>

record Entry =
  Entry_Labels :: LabelSet
  Entry_Timestamp :: Time
  Entry_Line :: string

text \<open>
  The three error returns of \<open>parseGCPLogsEntry\<close>: the error of \<open>json.Unmarshal\<close>
  returned as it is, the error of \<open>time.Parse\<close> wrapped as
  "invalid timestamp format", and "no timestamp found in the log entry".
\<close>

datatype error =
  UnmarshalError string
  | InvalidTimestampFormat string
  | NoTimestampFound

text \<open>
  What the function takes from outside this file: the JSON decoder for
  \<open>GCPLogEntry\<close>, the helper \<open>convertToLokiCompatibleLabel\<close> of the same package,
  \<open>time.Parse\<close> with the layout \<open>time.RFC3339\<close>, and the reading of the clock
  by \<open>time.Now\<close>.
\<close>

record deps =
  json_Unmarshal :: "string \<Rightarrow> string + GCPLogEntry"
  convertToLokiCompatibleLabel :: "string \<Rightarrow> string"
  time_Parse_RFC3339 :: "string \<Rightarrow> string + Time"
  time_Now :: Time

subsection \<open>Library functions the formatter calls\<close>

text \<open>
  \<open>labels.Builder\<close> of Prometheus: a base label list, the names deleted and the labels
  added or changed. \<open>Set\<close> with an empty value deletes the label. \<open>Labels\<close> keeps the
  base labels that are neither deleted nor overwritten, appends the added ones and sorts
  by name. The names of the added labels are distinct (\<open>Set\<close> appends a label only when
  its name is new), so \<open>Del\<close> removes at most one of them.
\<close>

record Builder =
  base :: Labels
  del :: "string list"
  add :: Labels

definition NewBuilder :: "Labels \<Rightarrow> Builder" where
  "NewBuilder b =
     \<lparr>base = b, del = map Name (filter (\<lambda>l. Value l = []) b), add = []\<rparr>"

definition Builder_Del :: "string \<Rightarrow> Builder \<Rightarrow> Builder" where
  "Builder_Del n b =
     b\<lparr>add := filter (\<lambda>a. Name a \<noteq> n) (add b), del := del b @ [n]\<rparr>"

fun setAdded :: "string \<Rightarrow> string \<Rightarrow> Labels \<Rightarrow> Labels" where
  \<comment> \<open>the loop of \<open>Set\<close> over the added labels: the first label of that name takes the
     value; without such a label, the new label is appended\<close>
  "setAdded n v [] = [Label n v]"
| "setAdded n v (a # as) = (if Name a = n then Label n v # as else a # setAdded n v as)"

definition Builder_Set :: "string \<Rightarrow> string \<Rightarrow> Builder \<Rightarrow> Builder" where
  "Builder_Set n v b =
     (if v = [] then Builder_Del n b else b\<lparr>add := setAdded n v (add b)\<rparr>)"

definition Builder_Labels :: "Builder \<Rightarrow> Labels" where
  "Builder_Labels b =
     (if del b = [] \<and> add b = [] then base b
      else
        let res = filter (\<lambda>l. Name l \<notin> set (del b) \<and> Name l \<notin> set (map Name (add b)))
                    (base b)
        in if add b \<noteq> [] then sort_key Name (res @ add b) else res)"

text \<open>
  A relabel rule (\<open>relabel.Config\<close>) is opaque to the formatter. It is modelled by what
  applying it does: it maps a label list to a new label list and a flag that is false
  when the rule drops the target. \<open>relabel.Process\<close> applies the rules in order and
  returns the empty label list and false at the first drop.
\<close>

type_synonym Config = "Labels \<Rightarrow> Labels \<times> bool"

fun relabel_Process :: "Labels \<Rightarrow> Config list \<Rightarrow> Labels \<times> bool" where
  "relabel_Process lbls [] = (lbls, True)"
| "relabel_Process lbls (cfg # cfgs) =
     (case cfg lbls of
        (lbls', keep) \<Rightarrow> if \<not> keep then ([], False) else relabel_Process lbls' cfgs)"

text \<open>\<open>strings.HasPrefix\<close>.\<close>

definition HasPrefix :: "string \<Rightarrow> string \<Rightarrow> bool" where
  "HasPrefix s p \<longleftrightarrow> prefix p s"

text \<open>
  \<open>model.LabelName.IsValid\<close>: the name is not empty, every byte is a letter, an
  underscore or a digit, and the first byte is no digit.
\<close>

definition isLetter :: "char \<Rightarrow> bool" where
  "isLetter c \<longleftrightarrow>
     (CHR ''a'' \<le> c \<and> c \<le> CHR ''z'') \<or> (CHR ''A'' \<le> c \<and> c \<le> CHR ''Z'') \<or> c = CHR ''_''"

definition isDigit :: "char \<Rightarrow> bool" where
  "isDigit c \<longleftrightarrow> CHR ''0'' \<le> c \<and> c \<le> CHR ''9''"

definition LabelName_IsValid :: "string \<Rightarrow> bool" where
  "LabelName_IsValid ln \<longleftrightarrow>
     (case ln of
        [] \<Rightarrow> False
      | c # cs \<Rightarrow> isLetter c \<and> list_all (\<lambda>b. isLetter b \<or> isDigit b) cs)"

text \<open>
  \<open>model.LabelValue.IsValid\<close> is \<open>utf8.ValidString\<close>: the bytes are a sequence of
  well-formed UTF-8 encodings (no overlong forms, no surrogates, nothing above U+10FFFF).
\<close>

definition byteIn :: "nat \<Rightarrow> nat \<Rightarrow> char \<Rightarrow> bool" where
  "byteIn lo hi c \<longleftrightarrow> lo \<le> (of_char c :: nat) \<and> (of_char c :: nat) \<le> hi"

fun utf8_ValidString :: "string \<Rightarrow> bool" where
  "utf8_ValidString [] = True"
| "utf8_ValidString (c # cs) =
     (if byteIn 0x00 0x7F c then utf8_ValidString cs
      else if byteIn 0xC2 0xDF c then
        (case cs of
           c1 # r \<Rightarrow> byteIn 0x80 0xBF c1 \<and> utf8_ValidString r
         | _ \<Rightarrow> False)
      else if byteIn 0xE0 0xEF c then
        (case cs of
           c1 # c2 # r \<Rightarrow>
             byteIn (if c = CHR 0xE0 then 0xA0 else 0x80)
                    (if c = CHR 0xED then 0x9F else 0xBF) c1
             \<and> byteIn 0x80 0xBF c2 \<and> utf8_ValidString r
         | _ \<Rightarrow> False)
      else if byteIn 0xF0 0xF4 c then
        (case cs of
           c1 # c2 # c3 # r \<Rightarrow>
             byteIn (if c = CHR 0xF0 then 0x90 else 0x80)
                    (if c = CHR 0xF4 then 0x8F else 0xBF) c1
             \<and> byteIn 0x80 0xBF c2 \<and> byteIn 0x80 0xBF c3 \<and> utf8_ValidString r
         | _ \<Rightarrow> False)
      else False)"

definition LabelValue_IsValid :: "string \<Rightarrow> bool" where
  "LabelValue_IsValid lv \<longleftrightarrow> utf8_ValidString lv"

text \<open>\<open>LabelSet.Merge\<close>: a copy of the receiver overwritten with the argument.\<close>

definition LabelSet_Merge :: "LabelSet \<Rightarrow> LabelSet \<Rightarrow> LabelSet" where
  "LabelSet_Merge l other = l ++ other"

text \<open>
  \<open>strings.TrimSpace\<close> removes the leading and trailing white space, as
  \<open>unicode.IsSpace\<close> defines it. \<open>spaceRunes\<close> lists the UTF-8 encodings of those
  code points: tab, line feed, vertical tab, form feed, carriage return, space, U+0085,
  U+00A0, U+1680, U+2000 to U+200A, U+2028, U+2029, U+202F, U+205F and U+3000.
\<close>

definition spaceRunes :: "string list" where
  "spaceRunes =
     [[CHR 0x09], [CHR 0x0A], [CHR 0x0B], [CHR 0x0C], [CHR 0x0D], [CHR 0x20],
      [CHR 0xC2, CHR 0x85], [CHR 0xC2, CHR 0xA0],
      [CHR 0xE1, CHR 0x9A, CHR 0x80],
      [CHR 0xE2, CHR 0x80, CHR 0x80], [CHR 0xE2, CHR 0x80, CHR 0x81],
      [CHR 0xE2, CHR 0x80, CHR 0x82], [CHR 0xE2, CHR 0x80, CHR 0x83],
      [CHR 0xE2, CHR 0x80, CHR 0x84], [CHR 0xE2, CHR 0x80, CHR 0x85],
      [CHR 0xE2, CHR 0x80, CHR 0x86], [CHR 0xE2, CHR 0x80, CHR 0x87],
      [CHR 0xE2, CHR 0x80, CHR 0x88], [CHR 0xE2, CHR 0x80, CHR 0x89],
      [CHR 0xE2, CHR 0x80, CHR 0x8A],
      [CHR 0xE2, CHR 0x80, CHR 0xA8], [CHR 0xE2, CHR 0x80, CHR 0xA9],
      [CHR 0xE2, CHR 0x80, CHR 0xAF], [CHR 0xE2, CHR 0x81, CHR 0x9F],
      [CHR 0xE3, CHR 0x80, CHR 0x80]]"

text \<open>The width in bytes of the white-space rune a string starts or ends with, 0 if none.\<close>

definition leadingSpace :: "string \<Rightarrow> nat" where
  "leadingSpace s = (case find (\<lambda>r. prefix r s) spaceRunes of None \<Rightarrow> 0 | Some r \<Rightarrow> length r)"

definition trailingSpace :: "string \<Rightarrow> nat" where
  "trailingSpace s = (case find (\<lambda>r. suffix r s) spaceRunes of None \<Rightarrow> 0 | Some r \<Rightarrow> length r)"

function TrimLeftSpace :: "string \<Rightarrow> string" where
  "TrimLeftSpace s =
     (if 0 < leadingSpace s \<and> leadingSpace s \<le> length s
      then TrimLeftSpace (drop (leadingSpace s) s) else s)"
  by pat_completeness auto
termination
  by (relation "measure length") auto

function TrimRightSpace :: "string \<Rightarrow> string" where
  "TrimRightSpace s =
     (if 0 < trailingSpace s \<and> trailingSpace s \<le> length s
      then TrimRightSpace (take (length s - trailingSpace s) s) else s)"
  by pat_completeness auto
termination
  by (relation "measure length") auto

definition TrimSpace :: "string \<Rightarrow> string" where
  "TrimSpace s = TrimRightSpace (TrimLeftSpace s)"

subsection \<open>The formatter\<close>

text \<open>
  Lines 59 to 73: the builder starts from \<open>otherInternal\<close>, takes the three fixed
  labels and then one label for each resource label and each entry label.
\<close>

definition setResourceLabels :: "deps \<Rightarrow> (string \<times> string) list \<Rightarrow> Builder \<Rightarrow> Builder" where
  "setResourceLabels d m lbs =
     foldl (\<lambda>b (k, v).
        Builder_Set (''__gcp_resource_labels_'' @ convertToLokiCompatibleLabel d k) v b) lbs m"

definition setEntryLabels :: "deps \<Rightarrow> (string \<times> string) list \<Rightarrow> Builder \<Rightarrow> Builder" where
  "setEntryLabels d m lbs =
     foldl (\<lambda>b (k, v).
        Builder_Set (''__gcp_labels_'' @ convertToLokiCompatibleLabel d k) v b) lbs m"

definition internalLabels :: "deps \<Rightarrow> GCPLogEntry \<Rightarrow> Labels \<Rightarrow> Builder" where
  "internalLabels d ge otherInternal =
     (let lbs = NewBuilder otherInternal;
          lbs = Builder_Set ''__gcp_logname'' (LogName ge) lbs;
          lbs = Builder_Set ''__gcp_resource_type'' (Resource_Type ge) lbs;
          lbs = Builder_Set ''__gcp_severity'' (Severity ge) lbs;
          lbs = setResourceLabels d (Resource_Labels ge) lbs;
          lbs = setEntryLabels d (Labels ge) lbs
      in lbs)"

text \<open>Lines 75 to 82: relabelling. The second result of \<open>relabel.Process\<close> is discarded.\<close>

definition processedLabels :: "Builder \<Rightarrow> Config list \<Rightarrow> Labels" where
  "processedLabels lbs relabelConfig =
     (if length relabelConfig > 0
      then fst (relabel_Process (Builder_Labels lbs) relabelConfig)
      else Builder_Labels lbs)"

text \<open>Lines 84 to 96: the label set built from the processed labels.\<close>

definition keepLabel :: "LabelSet \<Rightarrow> Label \<Rightarrow> LabelSet" where
  "keepLabel labels lbl =
     (if HasPrefix (Name lbl) ''__'' then labels
      else if \<not> LabelName_IsValid (Name lbl) \<or> \<not> LabelValue_IsValid (Value lbl) then labels
      else labels(Name lbl \<mapsto> Value lbl))"

definition finalLabels :: "Labels \<Rightarrow> LabelSet" where
  "finalLabels processed = foldl keepLabel Map.empty processed"

text \<open>Lines 52 to 132.\<close>

definition parseGCPLogsEntry ::
  "deps \<Rightarrow> string \<Rightarrow> LabelSet \<Rightarrow> Labels \<Rightarrow> bool \<Rightarrow> bool \<Rightarrow> Config list \<Rightarrow> error + Entry" where
  "parseGCPLogsEntry d data other otherInternal useIncomingTimestamp useFullLine relabelConfig =
     (case json_Unmarshal d data of
        Inl err \<Rightarrow> Inl (UnmarshalError err)
      | Inr ge \<Rightarrow>
          let lbs = internalLabels d ge otherInternal;
              processed = processedLabels lbs relabelConfig;
              labels = LabelSet_Merge (finalLabels processed) other;
              line = (if \<not> useFullLine \<and> TrimSpace (TextPayload ge) \<noteq> []
                      then TextPayload ge else data)
          in if useIncomingTimestamp then
               (let tt = (if Timestamp ge = [] then ReceiveTimestamp ge else Timestamp ge)
                in case time_Parse_RFC3339 d tt of
                     Inl err \<Rightarrow> Inl (InvalidTimestampFormat err)
                   | Inr ts \<Rightarrow>
                       if IsZero ts then Inl NoTimestampFound
                       else Inr \<lparr>Entry_Labels = labels, Entry_Timestamp = ts, Entry_Line = line\<rparr>)
             else Inr \<lparr>Entry_Labels = labels, Entry_Timestamp = time_Now d, Entry_Line = line\<rparr>)"

subsection \<open>An instance of the outside functions, for the examples\<close>

text \<open>
  Modelled from the spec: \<open>convertToLokiCompatibleLabel\<close> is defined in another file of
  the package. The spec describes the sanitizer as deterministic and names one rule:
  every character outside letters, digits and the underscore is replaced by an underscore.
\<close>

definition sampleSanitize :: "string \<Rightarrow> string" where
  "sampleSanitize s = map (\<lambda>c. if isLetter c \<or> isDigit c then c else CHR ''_'') s"

text \<open>
  A parser for the UTC form \<open>YYYY-MM-DDTHH:MM:SSZ\<close> of RFC 3339. It rejects every other
  string; \<open>time.Parse\<close> accepts more (fractions of a second, numeric offsets).
\<close>

definition parseNum :: "string \<Rightarrow> int option" where
  "parseNum s =
     (if s \<noteq> [] \<and> list_all isDigit s
      then Some (foldl (\<lambda>n c. 10 * n + (int (of_char c) - 48)) 0 s) else None)"

definition isLeap :: "int \<Rightarrow> bool" where
  "isLeap y \<longleftrightarrow> y mod 4 = 0 \<and> (y mod 100 \<noteq> 0 \<or> y mod 400 = 0)"

definition daysIn :: "int \<Rightarrow> int \<Rightarrow> int" where
  "daysIn y m =
     (if m = 2 then (if isLeap y then 29 else 28)
      else if m = 4 \<or> m = 6 \<or> m = 9 \<or> m = 11 then 30 else 31)"

definition daysBefore :: "int \<Rightarrow> int \<Rightarrow> int" where
  "daysBefore y m = sum_list (map (\<lambda>i. daysIn y (int i)) [1 ..< nat m])"

definition unixDate :: "int \<Rightarrow> int \<Rightarrow> int \<Rightarrow> int" where
  \<comment> \<open>days from January 1, year 1 to the given date of the proleptic Gregorian calendar\<close>
  "unixDate y m dd =
     365 * (y - 1) + (y - 1) div 4 - (y - 1) div 100 + (y - 1) div 400
       + daysBefore y m + (dd - 1)"

definition sampleTimeParse :: "string \<Rightarrow> string + Time" where
  "sampleTimeParse s =
     (if length s = 20 \<and> s ! 4 = CHR ''-'' \<and> s ! 7 = CHR ''-'' \<and> s ! 10 = CHR ''T''
         \<and> s ! 13 = CHR '':'' \<and> s ! 16 = CHR '':'' \<and> s ! 19 = CHR ''Z''
      then
        (case (parseNum (take 4 s), parseNum (take 2 (drop 5 s)), parseNum (take 2 (drop 8 s)),
               parseNum (take 2 (drop 11 s)), parseNum (take 2 (drop 14 s)),
               parseNum (take 2 (drop 17 s))) of
           (Some y, Some m, Some dd, Some hh, Some mm, Some ss) \<Rightarrow>
             if 1 \<le> m \<and> m \<le> 12 \<and> 1 \<le> dd \<and> dd \<le> daysIn y m \<and> hh < 24 \<and> mm < 60 \<and> ss < 60
             then Inr (Time (((unixDate y m dd * 24 + hh) * 60 + mm) * 60 + ss) 0)
             else Inl ''out of range''
         | _ \<Rightarrow> Inl ''cannot parse'')
      else Inl ''cannot parse'')"

text \<open>
  A decoder for the documents of the examples: it returns what \<open>json.Unmarshal\<close> returns
  for each of them and an error for every other input.
\<close>

definition emptyEntry :: GCPLogEntry where
  "emptyEntry =
     \<lparr>LogName = [], Resource_Type = [], Resource_Labels = [], Timestamp = [],
      ReceiveTimestamp = [], Severity = [], Labels = [], TextPayload = []\<rparr>"

definition docEmpty :: string where
  \<open>docEmpty = ''{}''\<close>

definition docText :: string where
  \<open>docText = ''{"textPayload":"hello"}''\<close>

definition docBlank :: string where
  \<open>docBlank = ''{"textPayload":"  "}''\<close>

definition docReceived :: string where
  \<open>docReceived = ''{"receiveTimestamp":"2024-01-01T00:00:00Z"}''\<close>

definition docZeroTime :: string where
  \<open>docZeroTime = ''{"timestamp":"0001-01-01T00:00:00Z"}''\<close>

definition docLogName :: string where
  \<open>docLogName = ''{"logName":"projects/p/logs/syslog"}''\<close>

definition sampleUnmarshal :: "string \<Rightarrow> string + GCPLogEntry" where
  "sampleUnmarshal data =
     (if data = docEmpty then Inr emptyEntry
      else if data = docText then Inr (emptyEntry\<lparr>TextPayload := ''hello''\<rparr>)
      else if data = docBlank then Inr (emptyEntry\<lparr>TextPayload := ''  ''\<rparr>)
      else if data = docReceived
        then Inr (emptyEntry\<lparr>ReceiveTimestamp := ''2024-01-01T00:00:00Z''\<rparr>)
      else if data = docZeroTime
        then Inr (emptyEntry\<lparr>Timestamp := ''0001-01-01T00:00:00Z''\<rparr>)
      else if data = docLogName
        then Inr (emptyEntry\<lparr>LogName := ''projects/p/logs/syslog''\<rparr>)
      else Inl ''cannot decode'')"

definition sampleNow :: Time where
  "sampleNow = Time 63800000000 5"

definition sampleDeps :: deps where
  "sampleDeps =
     \<lparr>json_Unmarshal = sampleUnmarshal, convertToLokiCompatibleLabel = sampleSanitize,
      time_Parse_RFC3339 = sampleTimeParse, time_Now = sampleNow\<rparr>"

text \<open>
  Two relabel rules: one that drops every target, and a \<open>replace\<close> rule that copies the
  value of the label \<open>src\<close> to the label \<open>dst\<close>.
\<close>

definition dropRule :: Config where
  "dropRule lbls = ([], False)"

definition replaceRule :: "string \<Rightarrow> string \<Rightarrow> Config" where
  "replaceRule src dst lbls =
     (case find (\<lambda>l. Name l = src) lbls of
        None \<Rightarrow> (lbls, True)
      | Some l \<Rightarrow> (Builder_Labels (Builder_Set dst (Value l) (NewBuilder lbls)), True))"

text \<open>Entries and base labels for the examples of the label assembly.\<close>

definition sampleResourceEntry :: GCPLogEntry where
  "sampleResourceEntry =
     emptyEntry\<lparr>Severity := ''INFO'',
                Resource_Labels := [(''zone'', []), (''project.id'', ''p1'')],
                Labels := [(''team'', [])]\<rparr>"

definition sampleBase :: Labels where
  "sampleBase = [Label ''__gcp_logname'' ''inherited'']"

definition sampleColliding :: GCPLogEntry where
  "sampleColliding = emptyEntry\<lparr>Resource_Labels := [(''a.b'', []), (''a/b'', ''x'')]\<rparr>"

subsection \<open>Predicates on the builder, for the proofs\<close>

text \<open>
  A name is deleted in a builder when it is among the deleted names and no added label
  carries it. A builder has no empty values when no added label has an empty value and
  every base label with an empty value is among the deleted names.
\<close>

definition deleted :: "Builder \<Rightarrow> string \<Rightarrow> bool" where
  "deleted b n \<longleftrightarrow> n \<in> set (del b) \<and> n \<notin> set (map Name (add b))"

definition noEmptyValues :: "Builder \<Rightarrow> bool" where
  "noEmptyValues b \<longleftrightarrow>
     (\<forall>l \<in> set (add b). Value l \<noteq> []) \<and>
     (\<forall>l \<in> set (base b). Value l = [] \<longrightarrow> Name l \<in> set (del b))"

section \<open>Properties\<close>

subsection \<open>Unfolding the formatter\<close>

lemma parse_decoded:
  "json_Unmarshal d data = Inr ge \<Longrightarrow>
   parseGCPLogsEntry d data other otherInternal useIncomingTimestamp useFullLine relabelConfig =
     (let labels = LabelSet_Merge
                     (finalLabels (processedLabels (internalLabels d ge otherInternal) relabelConfig))
                     other;
          line = (if \<not> useFullLine \<and> TrimSpace (TextPayload ge) \<noteq> []
                  then TextPayload ge else data)
      in if useIncomingTimestamp then
           (case time_Parse_RFC3339 d
                   (if Timestamp ge = [] then ReceiveTimestamp ge else Timestamp ge) of
              Inl err \<Rightarrow> Inl (InvalidTimestampFormat err)
            | Inr ts \<Rightarrow>
                if IsZero ts then Inl NoTimestampFound
                else Inr \<lparr>Entry_Labels = labels, Entry_Timestamp = ts, Entry_Line = line\<rparr>)
         else Inr \<lparr>Entry_Labels = labels, Entry_Timestamp = time_Now d, Entry_Line = line\<rparr>)"
  by (simp add: parseGCPLogsEntry_def Let_def)

lemma parse_record_decoded:
  "parseGCPLogsEntry d data other otherInternal uit ufl cfg = Inr r \<Longrightarrow>
   \<exists>ge. json_Unmarshal d data = Inr ge"
  by (cases "json_Unmarshal d data") (simp_all add: parseGCPLogsEntry_def)

lemma parse_record_fields:
  assumes "parseGCPLogsEntry d data other otherInternal uit ufl cfg = Inr r"
    and "json_Unmarshal d data = Inr ge"
  shows "Entry_Labels r =
           LabelSet_Merge (finalLabels (processedLabels (internalLabels d ge otherInternal) cfg)) other"
    and "Entry_Line r = (if \<not> ufl \<and> TrimSpace (TextPayload ge) \<noteq> [] then TextPayload ge else data)"
    and "\<not> uit \<Longrightarrow> Entry_Timestamp r = time_Now d"
    and "uit \<Longrightarrow> time_Parse_RFC3339 d
                  (if Timestamp ge = [] then ReceiveTimestamp ge else Timestamp ge)
                = Inr (Entry_Timestamp r)"
  using assms
  by (auto simp add: parse_decoded Let_def split: if_splits sum.splits)

subsection \<open>The example instance\<close>

lemma sample_docs_distinct:
  "docEmpty \<noteq> docText" "docEmpty \<noteq> docBlank" "docEmpty \<noteq> docReceived"
  "docEmpty \<noteq> docZeroTime" "docEmpty \<noteq> docLogName"
  "docText \<noteq> docBlank" "docText \<noteq> docReceived" "docText \<noteq> docZeroTime"
  "docText \<noteq> docLogName"
  "docBlank \<noteq> docReceived" "docBlank \<noteq> docZeroTime" "docBlank \<noteq> docLogName"
  "docReceived \<noteq> docZeroTime" "docReceived \<noteq> docLogName" "docZeroTime \<noteq> docLogName"
  by (simp_all add: docEmpty_def docText_def docBlank_def docReceived_def docZeroTime_def
      docLogName_def)

lemma sample_decode:
  "json_Unmarshal sampleDeps docEmpty = Inr emptyEntry"
  "json_Unmarshal sampleDeps docText = Inr (emptyEntry\<lparr>TextPayload := ''hello''\<rparr>)"
  "json_Unmarshal sampleDeps docBlank = Inr (emptyEntry\<lparr>TextPayload := ''  ''\<rparr>)"
  "json_Unmarshal sampleDeps docReceived =
     Inr (emptyEntry\<lparr>ReceiveTimestamp := ''2024-01-01T00:00:00Z''\<rparr>)"
  "json_Unmarshal sampleDeps docZeroTime =
     Inr (emptyEntry\<lparr>Timestamp := ''0001-01-01T00:00:00Z''\<rparr>)"
  "json_Unmarshal sampleDeps docLogName =
     Inr (emptyEntry\<lparr>LogName := ''projects/p/logs/syslog''\<rparr>)"
  by (simp_all add: sampleDeps_def sampleUnmarshal_def sample_docs_distinct
      sample_docs_distinct [symmetric])

lemma sample_times:
  "time_Parse_RFC3339 sampleDeps ''2024-01-01T00:00:00Z'' = Inr (Time 63839664000 0)"
  "time_Parse_RFC3339 sampleDeps ''0001-01-01T00:00:00Z'' = Inr (Time 0 0)"
  "time_Parse_RFC3339 sampleDeps [] = Inl ''cannot parse''"
  unfolding sampleDeps_def
  by (simp, code_simp, simp, code_simp, simp add: sampleTimeParse_def)

lemma TrimSpace_hello: "TrimSpace ''hello'' = ''hello''"
  by code_simp

lemma TrimSpace_blank: "TrimSpace ''  '' = []"
  by code_simp

subsection \<open>Line selection\<close>

text \<open>
  Claim C6. Whenever the formatter returns an entry, its line is the text payload if
  \<open>useFullLine\<close> is false and the payload, trimmed of white space, is not empty; in every
  other case the line is the input bytes, unchanged.
\<close>

theorem line_selection:
  "parseGCPLogsEntry d data other otherInternal useIncomingTimestamp useFullLine relabelConfig
     = Inr r \<Longrightarrow>
   json_Unmarshal d data = Inr ge \<Longrightarrow>
   Entry_Line r =
     (if \<not> useFullLine \<and> TrimSpace (TextPayload ge) \<noteq> [] then TextPayload ge else data)"
  by (rule parse_record_fields(2))

theorem line_selection_witness:
  "(\<exists>r. parseGCPLogsEntry sampleDeps docText Map.empty [] False False [] = Inr r
      \<and> json_Unmarshal sampleDeps docText = Inr (emptyEntry\<lparr>TextPayload := ''hello''\<rparr>)
      \<and> Entry_Line r = ''hello'')
   \<and> (\<exists>r. parseGCPLogsEntry sampleDeps docBlank Map.empty [] False False [] = Inr r
      \<and> json_Unmarshal sampleDeps docBlank = Inr (emptyEntry\<lparr>TextPayload := ''  ''\<rparr>)
      \<and> Entry_Line r = docBlank)"
proof -
  have dec: "json_Unmarshal sampleDeps docText = Inr (emptyEntry\<lparr>TextPayload := ''hello''\<rparr>)"
    by (rule sample_decode)
  obtain r where run: "parseGCPLogsEntry sampleDeps docText Map.empty [] False False [] = Inr r"
    by (simp add: parse_decoded [OF dec] Let_def)
  from line_selection [OF run dec] have hello: "Entry_Line r = ''hello''"
    by (simp add: TrimSpace_hello)
  have dec': "json_Unmarshal sampleDeps docBlank = Inr (emptyEntry\<lparr>TextPayload := ''  ''\<rparr>)"
    by (rule sample_decode)
  obtain r' where
    run': "parseGCPLogsEntry sampleDeps docBlank Map.empty [] False False [] = Inr r'"
    by (simp add: parse_decoded [OF dec'] Let_def)
  from line_selection [OF run' dec'] have "Entry_Line r' = docBlank"
    by (simp add: TrimSpace_blank)
  with run dec hello run' dec' show ?thesis by blast
qed

subsection \<open>Relabelling\<close>


subsection \<open>The final label set\<close>

lemma keepLabel_inv:
  assumes "keepLabel m l n = Some v"
  shows "m n = Some v \<or>
         (\<not> HasPrefix n ''__'' \<and> LabelName_IsValid n \<and> LabelValue_IsValid v \<and> l = Label n v)"
  using assms by (cases l) (auto simp add: keepLabel_def split: if_splits)

lemma foldl_keepLabel_inv:
  "foldl keepLabel m ls n = Some v \<Longrightarrow>
   m n = Some v \<or>
   (\<not> HasPrefix n ''__'' \<and> LabelName_IsValid n \<and> LabelValue_IsValid v \<and> Label n v \<in> set ls)"
proof (induction ls arbitrary: m)
  case Nil
  then show ?case by simp
next
  case (Cons l ls)
  from Cons.prems have "foldl keepLabel (keepLabel m l) ls n = Some v" by simp
  from Cons.IH [OF this] show ?case
    using keepLabel_inv [of m l n v] by auto
qed

lemma finalLabels_inv:
  "finalLabels processed n = Some v \<Longrightarrow>
   \<not> HasPrefix n ''__'' \<and> LabelName_IsValid n \<and> LabelValue_IsValid v
     \<and> Label n v \<in> set processed"
  using foldl_keepLabel_inv [of Map.empty processed n v] by (simp add: finalLabels_def)


lemma sample_promoted:
  "finalLabels (processedLabels
     (internalLabels sampleDeps (emptyEntry\<lparr>LogName := ''projects/p/logs/syslog''\<rparr>) [])
     [replaceRule ''__gcp_logname'' ''job'']) ''job'' = Some ''projects/p/logs/syslog''"
  by code_simp

text \<open>
  Claim C4. Whenever the formatter returns an entry, a label that is both among the
  labels kept from the relabelled list and among the caller's labels has the caller's
  value; a label of the caller alone has the caller's value, a label of the pipeline alone
  keeps its value, and the entry has no other label.
\<close>

theorem caller_labels_win:
  assumes "parseGCPLogsEntry d data other otherInternal useIncomingTimestamp useFullLine
             relabelConfig = Inr r"
    and "json_Unmarshal d data = Inr ge"
    and "pl = finalLabels (processedLabels (internalLabels d ge otherInternal) relabelConfig)"
  shows "(\<forall>k. k \<in> dom pl \<and> k \<in> dom other \<longrightarrow> Entry_Labels r k = other k)
       \<and> (\<forall>k. k \<in> dom other \<longrightarrow> Entry_Labels r k = other k)
       \<and> (\<forall>k. k \<notin> dom other \<longrightarrow> Entry_Labels r k = pl k)
       \<and> dom (Entry_Labels r) = dom pl \<union> dom other"
proof -
  have "Entry_Labels r = pl ++ other"
    using parse_record_fields(1) [OF assms(1,2)] assms(3) by (simp add: LabelSet_Merge_def)
  then show ?thesis
    by (auto simp add: map_add_dom_app_simps)
qed

theorem caller_labels_win_witness:
  "\<exists>r pl. parseGCPLogsEntry sampleDeps docLogName [''job'' \<mapsto> ''gcp''] [] False False
             [replaceRule ''__gcp_logname'' ''job''] = Inr r
     \<and> pl = finalLabels (processedLabels
              (internalLabels sampleDeps (emptyEntry\<lparr>LogName := ''projects/p/logs/syslog''\<rparr>) [])
              [replaceRule ''__gcp_logname'' ''job''])
     \<and> pl ''job'' = Some ''projects/p/logs/syslog''
     \<and> Entry_Labels r ''job'' = Some ''gcp''"
proof -
  let ?ge = "emptyEntry\<lparr>LogName := ''projects/p/logs/syslog''\<rparr>"
  let ?cfg = "[replaceRule ''__gcp_logname'' ''job'']"
  let ?other = "[''job'' \<mapsto> ''gcp'']"
  have dec: "json_Unmarshal sampleDeps docLogName = Inr ?ge"
    by (rule sample_decode)
  obtain r where run: "parseGCPLogsEntry sampleDeps docLogName ?other [] False False ?cfg = Inr r"
    by (simp add: parse_decoded [OF dec] Let_def)
  from caller_labels_win [OF run dec refl]
  have "\<forall>k. k \<in> dom ?other \<longrightarrow> Entry_Labels r k = ?other k" by blast
  then have "Entry_Labels r ''job'' = Some ''gcp''" by simp
  with run sample_promoted show ?thesis by blast
qed

subsection \<open>The timestamp\<close>

text \<open>
  Claim C5. With \<open>useIncomingTimestamp\<close> set, an empty \<open>timestamp\<close> field and a
  \<open>receiveTimestamp\<close> that parses to an instant other than the zero time, the formatter
  returns an entry and its timestamp is that instant.
\<close>

theorem receive_timestamp_fallback:
  assumes "json_Unmarshal d data = Inr ge"
    and "Timestamp ge = []"
    and "time_Parse_RFC3339 d (ReceiveTimestamp ge) = Inr t"
    and "\<not> IsZero t"
  shows "\<exists>r. parseGCPLogsEntry d data other otherInternal True useFullLine relabelConfig = Inr r
           \<and> Entry_Timestamp r = t"
  using assms by (simp add: parse_decoded Let_def)

theorem receive_timestamp_fallback_witness:
  "json_Unmarshal sampleDeps docReceived =
     Inr (emptyEntry\<lparr>ReceiveTimestamp := ''2024-01-01T00:00:00Z''\<rparr>)
   \<and> time_Parse_RFC3339 sampleDeps ''2024-01-01T00:00:00Z'' = Inr (Time 63839664000 0)
   \<and> (\<exists>r. parseGCPLogsEntry sampleDeps docReceived Map.empty [] True False [] = Inr r
           \<and> Entry_Timestamp r = Time 63839664000 0)"
proof -
  let ?ge = "emptyEntry\<lparr>ReceiveTimestamp := ''2024-01-01T00:00:00Z''\<rparr>"
  have dec: "json_Unmarshal sampleDeps docReceived = Inr ?ge"
    by (rule sample_decode)
  have empty: "Timestamp ?ge = []" by (simp add: emptyEntry_def)
  have parsed: "time_Parse_RFC3339 sampleDeps (ReceiveTimestamp ?ge) = Inr (Time 63839664000 0)"
    by (simp add: sample_times)
  have nonzero: "\<not> IsZero (Time 63839664000 0)" by (simp add: IsZero_def)
  from receive_timestamp_fallback [OF dec empty parsed nonzero, of Map.empty "[]" False "[]"]
    dec sample_times(1)
  show ?thesis by simp
qed

text \<open>
  Claim C8. With \<open>useIncomingTimestamp\<close> set, if the selected timestamp string parses and
  the instant is the zero time, the formatter returns no entry but the error
  "no timestamp found in the log entry".
\<close>

theorem zero_timestamp_rejected:
  assumes "json_Unmarshal d data = Inr ge"
    and "time_Parse_RFC3339 d
           (if Timestamp ge = [] then ReceiveTimestamp ge else Timestamp ge) = Inr t"
    and "IsZero t"
  shows "parseGCPLogsEntry d data other otherInternal True useFullLine relabelConfig
           = Inl NoTimestampFound"
  using assms by (simp add: parse_decoded Let_def)

theorem zero_timestamp_rejected_witness:
  "json_Unmarshal sampleDeps docZeroTime =
     Inr (emptyEntry\<lparr>Timestamp := ''0001-01-01T00:00:00Z''\<rparr>)
   \<and> time_Parse_RFC3339 sampleDeps ''0001-01-01T00:00:00Z'' = Inr (Time 0 0)
   \<and> IsZero (Time 0 0)
   \<and> parseGCPLogsEntry sampleDeps docZeroTime Map.empty [] True False [] = Inl NoTimestampFound"
proof -
  let ?ge = "emptyEntry\<lparr>Timestamp := ''0001-01-01T00:00:00Z''\<rparr>"
  have dec: "json_Unmarshal sampleDeps docZeroTime = Inr ?ge"
    by (rule sample_decode)
  have parsed: "time_Parse_RFC3339 sampleDeps
      (if Timestamp ?ge = [] then ReceiveTimestamp ?ge else Timestamp ?ge) = Inr (Time 0 0)"
    by (simp add: sample_times)
  have zero: "IsZero (Time 0 0)" by (simp add: IsZero_def)
  from zero_timestamp_rejected [OF dec parsed zero, of Map.empty "[]" False "[]"]
    dec sample_times(2) zero
  show ?thesis by simp
qed

subsection \<open>Helper facts\<close>

lemma relabel_Process_drop:
  "relabel_Process lbls cfgs = (ls, False) \<Longrightarrow> ls = []"
  by (induction cfgs arbitrary: lbls) (auto split: prod.splits if_splits)

lemma relabel_Process_dropped_fst:
  "\<not> snd (relabel_Process lbls cfgs) \<Longrightarrow> fst (relabel_Process lbls cfgs) = [] \<and> cfgs \<noteq> []"
  using relabel_Process_drop [of lbls cfgs "fst (relabel_Process lbls cfgs)"]
  by (cases cfgs) (auto simp add: prod_eq_iff)

lemma TrimSpace_Nil: "TrimSpace [] = []"
  by code_simp

lemma emptyEntry_sel:
  "LogName emptyEntry = []" "Resource_Type emptyEntry = []" "Resource_Labels emptyEntry = []"
  "Timestamp emptyEntry = []" "ReceiveTimestamp emptyEntry = []" "Severity emptyEntry = []"
  "Labels emptyEntry = []" "TextPayload emptyEntry = []"
  by (simp_all add: emptyEntry_def)

lemma sample_now: "time_Now sampleDeps = sampleNow"
  by (simp add: sampleDeps_def)

lemma finalLabels_Nil: "finalLabels [] = Map.empty"
  by (simp add: finalLabels_def)

lemma LabelSet_Merge_empty: "LabelSet_Merge Map.empty other = other"
  by (simp add: LabelSet_Merge_def)

lemma sample_empty_processed:
  "processedLabels (internalLabels sampleDeps emptyEntry []) [] = []"
  by code_simp

lemma sample_dropped:
  "relabel_Process
     (Builder_Labels (internalLabels sampleDeps (emptyEntry\<lparr>LogName := ''projects/p/logs/syslog''\<rparr>) []))
     [dropRule] = ([], False)"
  by (simp add: dropRule_def)


subsection \<open>A drop by the relabel rules\<close>

text \<open>
  Claim C1, as amended. The formatter discards the flag of \<open>relabel.Process\<close>. When the
  rules drop the record, the processed label list is empty and the formatter goes on: it
  returns the same timestamp errors as for any record, and otherwise an entry whose labels
  are exactly the caller's labels. No drop signal exists among its results.
\<close>

theorem dropped_record_still_returned:
  assumes "json_Unmarshal d data = Inr ge"
    and "\<not> snd (relabel_Process (Builder_Labels (internalLabels d ge otherInternal)) relabelConfig)"
  shows "parseGCPLogsEntry d data other otherInternal useIncomingTimestamp useFullLine relabelConfig =
     (let line = (if \<not> useFullLine \<and> TrimSpace (TextPayload ge) \<noteq> [] then TextPayload ge else data)
      in if useIncomingTimestamp then
           (case time_Parse_RFC3339 d
                   (if Timestamp ge = [] then ReceiveTimestamp ge else Timestamp ge) of
              Inl err \<Rightarrow> Inl (InvalidTimestampFormat err)
            | Inr ts \<Rightarrow>
                if IsZero ts then Inl NoTimestampFound
                else Inr \<lparr>Entry_Labels = other, Entry_Timestamp = ts, Entry_Line = line\<rparr>)
         else Inr \<lparr>Entry_Labels = other, Entry_Timestamp = time_Now d, Entry_Line = line\<rparr>)"
proof -
  from relabel_Process_dropped_fst [OF assms(2)]
  have "processedLabels (internalLabels d ge otherInternal) relabelConfig = []"
    by (simp add: processedLabels_def)
  then show ?thesis
    by (simp add: parse_decoded [OF assms(1)] finalLabels_Nil LabelSet_Merge_empty)
qed

theorem dropped_record_still_returned_witness:
  "json_Unmarshal sampleDeps docLogName = Inr (emptyEntry\<lparr>LogName := ''projects/p/logs/syslog''\<rparr>)
   \<and> \<not> snd (relabel_Process
       (Builder_Labels (internalLabels sampleDeps (emptyEntry\<lparr>LogName := ''projects/p/logs/syslog''\<rparr>) []))
       [dropRule])
   \<and> parseGCPLogsEntry sampleDeps docLogName [''env'' \<mapsto> ''prod''] [] False True [dropRule] =
       Inr \<lparr>Entry_Labels = [''env'' \<mapsto> ''prod''], Entry_Timestamp = sampleNow, Entry_Line = docLogName\<rparr>"
proof -
  have dropped: "\<not> snd (relabel_Process
       (Builder_Labels (internalLabels sampleDeps (emptyEntry\<lparr>LogName := ''projects/p/logs/syslog''\<rparr>) []))
       [dropRule])"
    by (simp add: sample_dropped del: relabel_Process.simps)
  from dropped_record_still_returned [OF sample_decode(6) dropped, of "[''env'' \<mapsto> ''prod'']" False True]
  have "parseGCPLogsEntry sampleDeps docLogName [''env'' \<mapsto> ''prod''] [] False True [dropRule] =
       Inr \<lparr>Entry_Labels = [''env'' \<mapsto> ''prod''], Entry_Timestamp = sampleNow, Entry_Line = docLogName\<rparr>"
    by (simp add: sample_now emptyEntry_sel)
  with dropped sample_decode(6) show ?thesis by blast
qed

text \<open>
  The claim as stated fails: for a rule list that drops the record, the formatter returns
  an entry.
\<close>

theorem drop_not_signalled_counterexample:
  "relabel_Process
     (Builder_Labels (internalLabels sampleDeps (emptyEntry\<lparr>LogName := ''projects/p/logs/syslog''\<rparr>) []))
     [dropRule] = ([], False)
   \<and> parseGCPLogsEntry sampleDeps docLogName [''job'' \<mapsto> ''gcp''] [] False False [dropRule] =
       Inr \<lparr>Entry_Labels = [''job'' \<mapsto> ''gcp''], Entry_Timestamp = sampleNow, Entry_Line = docLogName\<rparr>"
proof -
  have "processedLabels (internalLabels sampleDeps (emptyEntry\<lparr>LogName := ''projects/p/logs/syslog''\<rparr>) []) [dropRule] = []"
    by (simp add: processedLabels_def sample_dropped del: relabel_Process.simps)
  then have "parseGCPLogsEntry sampleDeps docLogName [''job'' \<mapsto> ''gcp''] [] False False [dropRule] =
       Inr \<lparr>Entry_Labels = [''job'' \<mapsto> ''gcp''], Entry_Timestamp = sampleNow, Entry_Line = docLogName\<rparr>"
    by (simp add: parse_decoded [OF sample_decode(6)] finalLabels_Nil LabelSet_Merge_empty
        emptyEntry_sel sample_now TrimSpace_Nil)
  with sample_dropped show ?thesis by blast
qed

subsection \<open>Internal and invalid labels\<close>

text \<open>
  Claim C2, as amended. In a returned entry, a label whose name starts with \<open>__\<close> is a
  label of the caller, with the caller's value: the labels kept from the relabelled list
  never start with \<open>__\<close>, and the caller's labels are merged in unfiltered.
\<close>

theorem internal_prefix_only_from_caller:
  assumes "parseGCPLogsEntry d data other otherInternal useIncomingTimestamp useFullLine relabelConfig = Inr r"
    and "Entry_Labels r n = Some v"
    and "HasPrefix n ''__''"
  shows "other n = Some v"
proof -
  from parse_record_decoded [OF assms(1)] obtain ge where dec: "json_Unmarshal d data = Inr ge" ..
  let ?pl = "finalLabels (processedLabels (internalLabels d ge otherInternal) relabelConfig)"
  have "Entry_Labels r = ?pl ++ other"
    using parse_record_fields(1) [OF assms(1) dec] by (simp add: LabelSet_Merge_def)
  with assms(2) have "other n = Some v \<or> ?pl n = Some v"
    by (auto simp add: map_add_Some_iff)
  with finalLabels_inv [of _ n v] assms(3) show ?thesis by blast
qed

theorem internal_prefix_only_from_caller_witness:
  "\<exists>r. parseGCPLogsEntry sampleDeps docText [''__tenant'' \<mapsto> ''t1''] [] False False [] = Inr r
     \<and> Entry_Labels r ''__tenant'' = Some ''t1''
     \<and> HasPrefix ''__tenant'' ''__''
     \<and> [''__tenant'' \<mapsto> ''t1''] ''__tenant'' = Some ''t1''"
proof -
  obtain r where run:
    "parseGCPLogsEntry sampleDeps docText [''__tenant'' \<mapsto> ''t1''] [] False False [] = Inr r"
    by (simp add: parse_decoded [OF sample_decode(2)] Let_def)
  have lbl: "Entry_Labels r ''__tenant'' = Some ''t1''"
    using parse_record_fields(1) [OF run sample_decode(2)] by (simp add: LabelSet_Merge_def)
  have pre: "HasPrefix ''__tenant'' ''__''" by (simp add: HasPrefix_def)
  from internal_prefix_only_from_caller [OF run lbl pre] run lbl pre show ?thesis by blast
qed

text \<open>The claim as stated fails for a caller label set with a name that starts with \<open>__\<close>.\<close>

theorem caller_internal_prefix_counterexample:
  "HasPrefix ''__tenant'' ''__''
   \<and> parseGCPLogsEntry sampleDeps docEmpty [''__tenant'' \<mapsto> ''t1''] [] False False [] =
       Inr \<lparr>Entry_Labels = [''__tenant'' \<mapsto> ''t1''], Entry_Timestamp = sampleNow, Entry_Line = docEmpty\<rparr>"
  by (simp add: parse_decoded [OF sample_decode(1)] sample_empty_processed finalLabels_Nil
      LabelSet_Merge_empty emptyEntry_sel sample_now HasPrefix_def TrimSpace_Nil)










subsection \<open>Both timestamp fields empty\<close>

text \<open>
  Claim C3, as amended. With \<open>useIncomingTimestamp\<close> set and both timestamp fields empty,
  the empty string goes to \<open>time.Parse\<close>; as \<open>time.Parse\<close> rejects it, the formatter
  returns no entry but the error "invalid timestamp format", which wraps the parse error.
\<close>

theorem empty_timestamps_parse_error:
  assumes "json_Unmarshal d data = Inr ge"
    and "Timestamp ge = []"
    and "ReceiveTimestamp ge = []"
    and "time_Parse_RFC3339 d [] = Inl err"
  shows "parseGCPLogsEntry d data other otherInternal True useFullLine relabelConfig
           = Inl (InvalidTimestampFormat err)"
  using assms by (simp add: parse_decoded Let_def)

theorem empty_timestamps_parse_error_witness:
  "json_Unmarshal sampleDeps docEmpty = Inr emptyEntry
   \<and> Timestamp emptyEntry = [] \<and> ReceiveTimestamp emptyEntry = []
   \<and> time_Parse_RFC3339 sampleDeps [] = Inl ''cannot parse''
   \<and> parseGCPLogsEntry sampleDeps docEmpty Map.empty [] True True []
       = Inl (InvalidTimestampFormat ''cannot parse'')"
  using empty_timestamps_parse_error [OF sample_decode(1) emptyEntry_sel(4) emptyEntry_sel(5) sample_times(3),
      of Map.empty "[]" True "[]"]
  by (simp add: sample_decode(1) emptyEntry_sel sample_times(3))

text \<open>
  The claim as stated fails: the error is the parse error, not
  "no timestamp found in the log entry".
\<close>

theorem empty_timestamps_counterexample:
  "json_Unmarshal sampleDeps docEmpty = Inr emptyEntry
   \<and> Timestamp emptyEntry = [] \<and> ReceiveTimestamp emptyEntry = []
   \<and> parseGCPLogsEntry sampleDeps docEmpty [''job'' \<mapsto> ''gcp''] [] True False []
       = Inl (InvalidTimestampFormat ''cannot parse'')
   \<and> parseGCPLogsEntry sampleDeps docEmpty [''job'' \<mapsto> ''gcp''] [] True False []
       \<noteq> Inl NoTimestampFound"
  by (simp add: parse_decoded [OF sample_decode(1)] sample_decode(1) emptyEntry_sel sample_times)

subsection \<open>Empty fields in the label assembly\<close>

lemma deleted_absent:
  "deleted b n \<Longrightarrow> n \<notin> set (map Name (Builder_Labels b))"
  by (auto simp add: deleted_def Builder_Labels_def Let_def)

lemma setAdded_names: "Name ` set (setAdded n v as) = insert n (Name ` set as)"
  by (induction as) auto

lemma setAdded_values: "l \<in> set (setAdded n v as) \<Longrightarrow> l = Label n v \<or> l \<in> set as"
  by (induction as) (auto split: if_splits)

lemma setAdded_distinct:
  "distinct (map Name as) \<Longrightarrow> distinct (map Name (setAdded n v as))"
proof (induction as)
  case Nil
  then show ?case by simp
next
  case (Cons a as)
  then show ?case
    by (auto simp add: setAdded_names)
qed

lemma Builder_Set_distinct:
  "distinct (map Name (add b)) \<Longrightarrow> distinct (map Name (add (Builder_Set n v b)))"
  by (simp add: Builder_Set_def Builder_Del_def setAdded_distinct distinct_map_filter)

lemma foldl_Set_distinct:
  "distinct (map Name (add b)) \<Longrightarrow>
   distinct (map Name (add (foldl (\<lambda>b (k, v). Builder_Set (pre @ f k) v b) b m)))"
  by (induction m arbitrary: b) (auto simp add: Builder_Set_distinct)

lemma internalLabels_added_distinct:
  "distinct (map Name (add (internalLabels d ge otherInternal)))"
  unfolding internalLabels_def Let_def setResourceLabels_def setEntryLabels_def
  by (intro foldl_Set_distinct Builder_Set_distinct) (simp add: NewBuilder_def)

lemma Builder_Set_empty_deleted: "deleted (Builder_Set n [] b) n"
  by (auto simp add: deleted_def Builder_Set_def Builder_Del_def)

lemma Builder_Set_keeps_deleted:
  "deleted b n \<Longrightarrow> m = n \<longrightarrow> v = [] \<Longrightarrow> deleted (Builder_Set m v b) n"
  by (auto simp add: deleted_def Builder_Set_def Builder_Del_def setAdded_names)

lemma foldl_Set_keeps_deleted:
  "deleted b n \<Longrightarrow> (\<forall>(k, v) \<in> set m. pre @ f k = n \<longrightarrow> v = []) \<Longrightarrow>
   deleted (foldl (\<lambda>b (k, v). Builder_Set (pre @ f k) v b) b m) n"
proof (induction m arbitrary: b)
  case Nil
  then show ?case by simp
next
  case (Cons kv m)
  obtain k v where kv: "kv = (k, v)" by (cases kv)
  from Cons.prems kv have "deleted (Builder_Set (pre @ f k) v b) n"
    by (intro Builder_Set_keeps_deleted) auto
  moreover from Cons.prems have "\<forall>(k, v) \<in> set m. pre @ f k = n \<longrightarrow> v = []" by simp
  ultimately show ?case using Cons.IH kv by simp
qed

lemma foldl_Set_deletes:
  "(k, []) \<in> set m \<Longrightarrow> (\<forall>(k', v') \<in> set m. f k' = f k \<longrightarrow> v' = []) \<Longrightarrow>
   deleted (foldl (\<lambda>b (k, v). Builder_Set (pre @ f k) v b) b m) (pre @ f k)"
proof (induction m arbitrary: b)
  case Nil
  then show ?case by simp
next
  case (Cons kv m)
  obtain k1 v1 where kv: "kv = (k1, v1)" by (cases kv)
  from Cons.prems have rest: "\<forall>(k', v') \<in> set m. f k' = f k \<longrightarrow> v' = []" by simp
  show ?case
  proof (cases "(k, []) \<in> set m")
    case True
    from Cons.IH [OF True rest] kv show ?thesis by simp
  next
    case False
    with Cons.prems kv have "k1 = k" "v1 = []" by auto
    then have "deleted (Builder_Set (pre @ f k1) v1 b) (pre @ f k)"
      by (simp add: Builder_Set_empty_deleted)
    moreover from rest have "\<forall>(k', v') \<in> set m. pre @ f k' = pre @ f k \<longrightarrow> v' = []" by auto
    ultimately show ?thesis
      using foldl_Set_keeps_deleted [of _ "pre @ f k" m pre f] kv by simp
  qed
qed

lemma NewBuilder_noEmptyValues: "noEmptyValues (NewBuilder ls)"
  by (auto simp add: noEmptyValues_def NewBuilder_def)

lemma Builder_Set_noEmptyValues:
  "noEmptyValues b \<Longrightarrow> noEmptyValues (Builder_Set n v b)"
  by (auto simp add: noEmptyValues_def Builder_Set_def Builder_Del_def
      dest: setAdded_values split: if_splits)

lemma foldl_Set_noEmptyValues:
  "noEmptyValues b \<Longrightarrow> noEmptyValues (foldl (\<lambda>b (k, v). Builder_Set (pre @ f k) v b) b m)"
  by (induction m arbitrary: b) (auto simp add: Builder_Set_noEmptyValues)

lemma noEmptyValues_Labels:
  "noEmptyValues b \<Longrightarrow> \<forall>l \<in> set (Builder_Labels b). Value l \<noteq> []"
  by (auto simp add: noEmptyValues_def Builder_Labels_def Let_def split: if_splits)

lemma internalLabels_noEmptyValues: "noEmptyValues (internalLabels d ge otherInternal)"
  unfolding internalLabels_def Let_def setResourceLabels_def setEntryLabels_def
  by (intro foldl_Set_noEmptyValues Builder_Set_noEmptyValues NewBuilder_noEmptyValues)

lemma setResourceLabels_keeps_deleted:
  assumes "deleted b n"
    and "\<forall>(k, v) \<in> set m. ''__gcp_resource_labels_'' @ convertToLokiCompatibleLabel d k = n
           \<longrightarrow> v = []"
  shows "deleted (setResourceLabels d m b) n"
  unfolding setResourceLabels_def using assms by (rule foldl_Set_keeps_deleted)

lemma setEntryLabels_keeps_deleted:
  assumes "deleted b n"
    and "\<forall>(k, v) \<in> set m. ''__gcp_labels_'' @ convertToLokiCompatibleLabel d k = n \<longrightarrow> v = []"
  shows "deleted (setEntryLabels d m b) n"
  unfolding setEntryLabels_def using assms by (rule foldl_Set_keeps_deleted)

lemma setResourceLabels_deletes:
  assumes "(k, []) \<in> set m"
    and "\<forall>(k', v') \<in> set m.
           convertToLokiCompatibleLabel d k' = convertToLokiCompatibleLabel d k \<longrightarrow> v' = []"
  shows "deleted (setResourceLabels d m b)
           (''__gcp_resource_labels_'' @ convertToLokiCompatibleLabel d k)"
  unfolding setResourceLabels_def using assms by (rule foldl_Set_deletes)

lemma setEntryLabels_deletes:
  assumes "(k, []) \<in> set m"
    and "\<forall>(k', v') \<in> set m.
           convertToLokiCompatibleLabel d k' = convertToLokiCompatibleLabel d k \<longrightarrow> v' = []"
  shows "deleted (setEntryLabels d m b) (''__gcp_labels_'' @ convertToLokiCompatibleLabel d k)"
  unfolding setEntryLabels_def using assms by (rule foldl_Set_deletes)

lemma maps_keep_deleted:
  assumes "deleted b n"
    and "\<forall>k. ''__gcp_resource_labels_'' @ k \<noteq> n" and "\<forall>k. ''__gcp_labels_'' @ k \<noteq> n"
  shows "deleted (setEntryLabels d es (setResourceLabels d rs b)) n"
proof -
  have "deleted (setResourceLabels d rs b) n"
    using assms(1) by (rule setResourceLabels_keeps_deleted) (use assms(2) in blast)
  then show ?thesis
    by (rule setEntryLabels_keeps_deleted) (use assms(3) in blast)
qed

text \<open>
  Claim C10, as amended. In the label list handed to the relabel rules: an empty
  \<open>logName\<close>, resource type or severity leaves no label of that name, also when the base
  labels had one; a resource label or entry label with an empty value leaves no label of
  its name, provided every entry of the same map with the same sanitized key has an empty
  value too; and no label of the list has an empty value.
\<close>

theorem empty_fields_leave_no_label:
  fixes d ge otherInternal
  defines "ls \<equiv> Builder_Labels (internalLabels d ge otherInternal)"
  defines "san \<equiv> convertToLokiCompatibleLabel d"
  shows "(LogName ge = [] \<longrightarrow> ''__gcp_logname'' \<notin> set (map Name ls))
       \<and> (Resource_Type ge = [] \<longrightarrow> ''__gcp_resource_type'' \<notin> set (map Name ls))
       \<and> (Severity ge = [] \<longrightarrow> ''__gcp_severity'' \<notin> set (map Name ls))
       \<and> (\<forall>(k, v) \<in> set (Resource_Labels ge).
            v = [] \<and> (\<forall>(k', v') \<in> set (Resource_Labels ge). san k' = san k \<longrightarrow> v' = [])
            \<longrightarrow> ''__gcp_resource_labels_'' @ san k \<notin> set (map Name ls))
       \<and> (\<forall>(k, v) \<in> set (Labels ge).
            v = [] \<and> (\<forall>(k', v') \<in> set (Labels ge). san k' = san k \<longrightarrow> v' = [])
            \<longrightarrow> ''__gcp_labels_'' @ san k \<notin> set (map Name ls))
       \<and> (\<forall>l \<in> set ls. Value l \<noteq> [])"
proof -
  let ?b0 = "NewBuilder otherInternal"
  let ?b1 = "Builder_Set ''__gcp_logname'' (LogName ge) ?b0"
  let ?b2 = "Builder_Set ''__gcp_resource_type'' (Resource_Type ge) ?b1"
  let ?b3 = "Builder_Set ''__gcp_severity'' (Severity ge) ?b2"
  let ?b4 = "setResourceLabels d (Resource_Labels ge) ?b3"
  let ?b5 = "setEntryLabels d (Labels ge) ?b4"
  have b5: "internalLabels d ge otherInternal = ?b5"
    by (simp add: internalLabels_def)
  have logname: "''__gcp_logname'' \<notin> set (map Name ls)" if "LogName ge = []"
  proof -
    have "deleted ?b1 ''__gcp_logname''"
      using that by (simp add: Builder_Set_empty_deleted)
    then have "deleted ?b2 ''__gcp_logname''"
      by (rule Builder_Set_keeps_deleted) simp
    then have "deleted ?b3 ''__gcp_logname''"
      by (rule Builder_Set_keeps_deleted) simp
    then have "deleted ?b5 ''__gcp_logname''"
      by (rule maps_keep_deleted) simp_all
    then show ?thesis unfolding ls_def b5 by (rule deleted_absent)
  qed
  have rtype: "''__gcp_resource_type'' \<notin> set (map Name ls)" if "Resource_Type ge = []"
  proof -
    have "deleted ?b2 ''__gcp_resource_type''"
      using that by (simp add: Builder_Set_empty_deleted)
    then have "deleted ?b3 ''__gcp_resource_type''"
      by (rule Builder_Set_keeps_deleted) simp
    then have "deleted ?b5 ''__gcp_resource_type''"
      by (rule maps_keep_deleted) simp_all
    then show ?thesis unfolding ls_def b5 by (rule deleted_absent)
  qed
  have severity: "''__gcp_severity'' \<notin> set (map Name ls)" if "Severity ge = []"
  proof -
    have "deleted ?b3 ''__gcp_severity''"
      using that by (simp add: Builder_Set_empty_deleted)
    then have "deleted ?b5 ''__gcp_severity''"
      by (rule maps_keep_deleted) simp_all
    then show ?thesis unfolding ls_def b5 by (rule deleted_absent)
  qed
  have resource: "''__gcp_resource_labels_'' @ san k \<notin> set (map Name ls)"
    if "(k, []) \<in> set (Resource_Labels ge)"
      and "\<forall>(k', v') \<in> set (Resource_Labels ge). san k' = san k \<longrightarrow> v' = []" for k
  proof -
    have "deleted ?b4 (''__gcp_resource_labels_'' @ san k)"
      unfolding san_def using that unfolding san_def by (rule setResourceLabels_deletes)
    then have "deleted ?b5 (''__gcp_resource_labels_'' @ san k)"
      by (rule setEntryLabels_keeps_deleted) simp
    then show ?thesis unfolding ls_def b5 by (rule deleted_absent)
  qed
  have entry: "''__gcp_labels_'' @ san k \<notin> set (map Name ls)"
    if "(k, []) \<in> set (Labels ge)"
      and "\<forall>(k', v') \<in> set (Labels ge). san k' = san k \<longrightarrow> v' = []" for k
  proof -
    have "deleted ?b5 (''__gcp_labels_'' @ san k)"
      unfolding san_def using that unfolding san_def by (rule setEntryLabels_deletes)
    then show ?thesis unfolding ls_def b5 by (rule deleted_absent)
  qed
  have nonempty: "\<forall>l \<in> set ls. Value l \<noteq> []"
    unfolding ls_def by (rule noEmptyValues_Labels [OF internalLabels_noEmptyValues])
  from logname rtype severity resource entry nonempty show ?thesis
    by (auto simp del: set_map)
qed


lemma sample_sanitized:
  "convertToLokiCompatibleLabel sampleDeps ''zone'' = ''zone''"
  "convertToLokiCompatibleLabel sampleDeps ''project.id'' = ''project_id''"
  "convertToLokiCompatibleLabel sampleDeps ''team'' = ''team''"
  "convertToLokiCompatibleLabel sampleDeps ''a.b'' = ''a_b''"
  "convertToLokiCompatibleLabel sampleDeps ''a/b'' = ''a_b''"
  by code_simp+

lemma sample_assembled:
  "Builder_Labels (internalLabels sampleDeps sampleResourceEntry sampleBase) =
     [Label ''__gcp_resource_labels_project_id'' ''p1'', Label ''__gcp_severity'' ''INFO'']"
  by code_simp

lemma sample_colliding_assembled:
  "Builder_Labels (internalLabels sampleDeps sampleColliding []) =
     [Label ''__gcp_resource_labels_a_b'' ''x'']"
  by code_simp

lemma sampleResourceEntry_sel:
  "LogName sampleResourceEntry = []"
  "Resource_Labels sampleResourceEntry = [(''zone'', []), (''project.id'', ''p1'')]"
  "Labels sampleResourceEntry = [(''team'', [])]"
  by (simp_all add: sampleResourceEntry_def emptyEntry_def)

lemma sampleColliding_sel:
  "Resource_Labels sampleColliding = [(''a.b'', []), (''a/b'', ''x'')]"
  by (simp add: sampleColliding_def)

theorem empty_fields_leave_no_label_witness:
  "LogName sampleResourceEntry = []
   \<and> Label ''__gcp_logname'' ''inherited'' \<in> set sampleBase
   \<and> (''zone'', []) \<in> set (Resource_Labels sampleResourceEntry)
   \<and> (''team'', []) \<in> set (Labels sampleResourceEntry)
   \<and> ''__gcp_logname''
        \<notin> set (map Name (Builder_Labels (internalLabels sampleDeps sampleResourceEntry sampleBase)))
   \<and> ''__gcp_resource_labels_'' @ convertToLokiCompatibleLabel sampleDeps ''zone''
        \<notin> set (map Name (Builder_Labels (internalLabels sampleDeps sampleResourceEntry sampleBase)))
   \<and> ''__gcp_labels_'' @ convertToLokiCompatibleLabel sampleDeps ''team''
        \<notin> set (map Name (Builder_Labels (internalLabels sampleDeps sampleResourceEntry sampleBase)))"
proof -
  let ?ls = "Builder_Labels (internalLabels sampleDeps sampleResourceEntry sampleBase)"
  let ?san = "convertToLokiCompatibleLabel sampleDeps"
  note all = empty_fields_leave_no_label [of sampleResourceEntry sampleDeps sampleBase]
  have base: "Label ''__gcp_logname'' ''inherited'' \<in> set sampleBase"
    by (simp add: sampleBase_def)
  have zone: "(''zone'', []) \<in> set (Resource_Labels sampleResourceEntry)"
    and team: "(''team'', []) \<in> set (Labels sampleResourceEntry)"
    by (simp_all add: sampleResourceEntry_sel)
  have zone_alone: "\<forall>(k', v') \<in> set (Resource_Labels sampleResourceEntry).
      ?san k' = ?san ''zone'' \<longrightarrow> v' = []"
    by (simp add: sampleResourceEntry_sel sample_sanitized)
  have team_alone: "\<forall>(k', v') \<in> set (Labels sampleResourceEntry).
      ?san k' = ?san ''team'' \<longrightarrow> v' = []"
    by (simp add: sampleResourceEntry_sel)
  from all sampleResourceEntry_sel(1) have 1: "''__gcp_logname'' \<notin> set (map Name ?ls)"
    by blast
  from all zone zone_alone have 2: "''__gcp_resource_labels_'' @ ?san ''zone'' \<notin> set (map Name ?ls)"
    by blast
  from all team team_alone have 3: "''__gcp_labels_'' @ ?san ''team'' \<notin> set (map Name ?ls)"
    by blast
  from sampleResourceEntry_sel(1) base zone team 1 2 3 show ?thesis by blast
qed

text \<open>
  The claim as stated fails when two keys of one map have the same sanitized form: the
  entry with the empty value deletes the label and the other entry, visited later, sets it.
\<close>

theorem colliding_keys_counterexample:
  "(''a.b'', []) \<in> set (Resource_Labels sampleColliding)
   \<and> ''__gcp_resource_labels_'' @ convertToLokiCompatibleLabel sampleDeps ''a.b''
       = ''__gcp_resource_labels_a_b''
   \<and> Builder_Labels (internalLabels sampleDeps sampleColliding [])
       = [Label ''__gcp_resource_labels_a_b'' ''x'']"
  by (simp add: sample_colliding_assembled sample_sanitized sampleColliding_sel)

end
